theory Spec2Isabelle
  imports Complex_Main "HOL-Library.Sublist"
begin

section \<open>The cart service of \<^verbatim>\<open>src/app/services/cart.service.ts\<close>\<close>

subsection \<open>Data model\<close>

text \<open>
  Every numeric field of the source has the TypeScript type \<^verbatim>\<open>number\<close>, an IEEE-754
  double. A number is modelled as the real number it denotes; NaN, the infinities and the
  sign of zero are outside the model. Identifiers are only compared. Quantities are
  integers (the service itself writes 1 and adds 1), and on integers below \<open>2 ^ 53\<close> the
  addition of doubles is exact: the count is modelled with the addition of reals. Prices
  are arbitrary doubles such as 99.99, so the products and sums of \<^verbatim>\<open>getTotalPrice\<close> are
  modelled with the rounding that each operation on doubles performs, \<open>round_double\<close>
  below.
\<close>

type_synonym number = real

text \<open>
  \<^verbatim>\<open>Omit<CartItem, 'quantity'>\<close>, the argument of \<^verbatim>\<open>addToCart\<close>, and \<^verbatim>\<open>CartItem\<close>
  itself, which adds the field \<^verbatim>\<open>quantity\<close>. The fields \<^verbatim>\<open>id\<close> and \<^verbatim>\<open>image\<close> carry a
  prime because HOL already has constants of these names; the optional \<^verbatim>\<open>image\<close> is an
  \<open>option\<close>.
\<close>

record Product =
  id' :: number
  name :: string
  price :: number
  image' :: "string option"

record CartItem = Product +
  quantity :: number

text \<open>
  A value pushed to a subscriber by \<^verbatim>\<open>BehaviorSubject.next\<close>: either on the feed
  \<^verbatim>\<open>cartItems$\<close> or on the feed \<^verbatim>\<open>cartCount$\<close>.
\<close>

datatype notification =
  CartItemsNext "CartItem list"
| CartCountNext number

text \<open>
  The service: the current value of each of the two \<^verbatim>\<open>BehaviorSubject\<close>s, and the
  notifications sent so far on both feeds, oldest first. One common trace records the
  order between the feeds.
\<close>

record CartService =
  cartItems :: "CartItem list"
  cartCount :: number
  emitted :: "notification list"

text \<open>\<^verbatim>\<open>new BehaviorSubject<CartItem[]>([])\<close> and \<^verbatim>\<open>new BehaviorSubject<number>(0)\<close>.\<close>

definition init :: CartService where
  "init = \<lparr>cartItems = [], cartCount = 0, emitted = []\<rparr>"

subsection \<open>Operations\<close>

text \<open>\<^verbatim>\<open>this.cartItems.next(v)\<close>: stores the value and notifies the subscribers.\<close>

definition cartItems_next :: "CartItem list \<Rightarrow> CartService \<Rightarrow> CartService" where
  "cartItems_next v s = s\<lparr>cartItems := v, emitted := emitted s @ [CartItemsNext v]\<rparr>"

text \<open>\<^verbatim>\<open>this.cartCount.next(v)\<close>.\<close>

definition cartCount_next :: "number \<Rightarrow> CartService \<Rightarrow> CartService" where
  "cartCount_next v s = s\<lparr>cartCount := v, emitted := emitted s @ [CartCountNext v]\<rparr>"

text \<open>
  \<^verbatim>\<open>updateCartCount\<close>: \<^verbatim>\<open>reduce\<close> with an initial value is a left fold over the current
  value of \<^verbatim>\<open>cartItems\<close>.
\<close>

definition updateCartCount :: "CartService \<Rightarrow> CartService" where
  "updateCartCount s =
     (let count = foldl (\<lambda>total item. total + quantity item) 0 (cartItems s)
      in cartCount_next count s)"

text \<open>
  The source writes to a field of the object that \<^verbatim>\<open>find\<close> returned, that is, of the
  first element of the array that satisfies the predicate; the array keeps the object at
  its index. \<open>update_found\<close> is that write on a list of values. The service creates every
  object of the array itself (\<^verbatim>\<open>{ ...product, quantity: 1 }\<close>) and stores it at one index
  only, so no second index of the array shares the written object.
\<close>

fun update_found :: "('a \<Rightarrow> bool) \<Rightarrow> ('a \<Rightarrow> 'a) \<Rightarrow> 'a list \<Rightarrow> 'a list" where
  "update_found P f [] = []"
| "update_found P f (x # xs) = (if P x then f x # xs else x # update_found P f xs)"

text \<open>
  \<^verbatim>\<open>addToCart\<close>. \<^verbatim>\<open>existingItem.quantity += 1\<close> followed by
  \<^verbatim>\<open>next([...currentItems])\<close> publishes a copy of the array with the found element
  incremented.
\<close>

definition addToCart :: "Product \<Rightarrow> CartService \<Rightarrow> CartService" where
  "addToCart product s =
     (let currentItems = cartItems s;
          existingItem = List.find (\<lambda>item. id' item = id' product) currentItems
      in updateCartCount
           (case existingItem of
              Some _ \<Rightarrow>
                cartItems_next
                  (update_found (\<lambda>item. id' item = id' product)
                     (\<lambda>item. item\<lparr>quantity := quantity item + 1\<rparr>) currentItems) s
            | None \<Rightarrow>
                (let newItem = \<lparr>id' = id' product, name = name product,
                                price = price product, image' = image' product,
                                quantity = 1\<rparr>
                 in cartItems_next (currentItems @ [newItem]) s)))"

text \<open>\<^verbatim>\<open>removeFromCart\<close>.\<close>

definition removeFromCart :: "number \<Rightarrow> CartService \<Rightarrow> CartService" where
  "removeFromCart productId s =
     (let currentItems = cartItems s;
          updatedItems = filter (\<lambda>item. id' item \<noteq> productId) currentItems
      in updateCartCount (cartItems_next updatedItems s))"

text \<open>\<^verbatim>\<open>updateQuantity\<close>: with no item found, nothing is written and nothing is sent.\<close>

definition updateQuantity :: "number \<Rightarrow> number \<Rightarrow> CartService \<Rightarrow> CartService" where
  "updateQuantity productId qty s =
     (if qty \<le> 0 then removeFromCart productId s
      else
        (let currentItems = cartItems s;
             item = List.find (\<lambda>item. id' item = productId) currentItems
         in case item of
              Some _ \<Rightarrow>
                updateCartCount
                  (cartItems_next
                     (update_found (\<lambda>item. id' item = productId)
                        (\<lambda>item. item\<lparr>quantity := qty\<rparr>) currentItems) s)
            | None \<Rightarrow> s))"

text \<open>\<^verbatim>\<open>clearCart\<close>.\<close>

definition clearCart :: "CartService \<Rightarrow> CartService" where
  "clearCart s = updateCartCount (cartItems_next [] s)"

text \<open>
  The arithmetic of doubles. \<open>binary_exponent n x\<close> is the \<open>e\<close> with
  \<open>2 ^ e \<le> x < 2 ^ (e + 1)\<close>, found by halving or doubling \<open>x\<close> at most \<open>n\<close> times.
\<close>

fun binary_exponent :: "nat \<Rightarrow> real \<Rightarrow> int" where
  "binary_exponent 0 x = 0"
| "binary_exponent (Suc n) x =
     (if 2 \<le> x then binary_exponent n (x / 2) + 1
      else if x < 1 then binary_exponent n (2 * x) - 1
      else 0)"

text \<open>The nearest integer, the even one of the two when both are equally near.\<close>

definition round_half_even :: "real \<Rightarrow> int" where
  "round_half_even y =
     (let f = \<lfloor>y\<rfloor>; r = y - of_int f
      in if r < 1 / 2 then f else if 1 / 2 < r then f + 1 else if even f then f else f + 1)"

text \<open>
  The double nearest to a real number (round to nearest, ties to even): 53 significant
  bits, so a number with binary exponent \<open>e\<close> is a multiple of \<open>2 ^ (e - 52)\<close>; the least
  exponent is \<open>-1022\<close>, below which the numbers are the multiples of \<open>2 ^ (-1074)\<close>.
  A result of magnitude \<open>2 ^ 1024\<close> or more, which is \<^verbatim>\<open>Infinity\<close> in the source, is
  outside the model.
\<close>

definition round_double :: "real \<Rightarrow> real" where
  "round_double x =
     (if x = 0 then 0
      else
        (let e = max (binary_exponent 1100 \<bar>x\<bar>) (- 1022);
             q = 2 powi (e - 52)
         in of_int (round_half_even (x / q)) * q))"

text \<open>
  \<^verbatim>\<open>getTotalPrice\<close>: \<^verbatim>\<open>item.price * item.quantity\<close> and \<^verbatim>\<open>total + ...\<close> each yield a
  double. It returns a number; the service after the call is returned with it, so that
  what the call leaves untouched can be stated.
\<close>

definition getTotalPrice :: "CartService \<Rightarrow> number \<times> CartService" where
  "getTotalPrice s =
     (foldl (\<lambda>total item. round_double (total + round_double (price item * quantity item)))
        0 (cartItems s), s)"

subsection \<open>Sequences of calls\<close>

text \<open>The four mutating methods, as the calls a client can make.\<close>

datatype operation =
  AddToCart Product
| RemoveFromCart number
| UpdateQuantity number number
| ClearCart

fun apply_operation :: "operation \<Rightarrow> CartService \<Rightarrow> CartService" where
  "apply_operation (AddToCart product) s = addToCart product s"
| "apply_operation (RemoveFromCart productId) s = removeFromCart productId s"
| "apply_operation (UpdateQuantity productId qty) s = updateQuantity productId qty s"
| "apply_operation ClearCart s = clearCart s"

text \<open>The service after a sequence of calls on a freshly constructed service.\<close>

definition run :: "operation list \<Rightarrow> CartService" where
  "run ops = foldl (\<lambda>s operation. apply_operation operation s) init ops"

subsection \<open>The invariant of the count\<close>

text \<open>
  The stored count is the sum of the quantities of the stored items: what
  \<^verbatim>\<open>updateCartCount\<close> establishes.
\<close>

definition consistent :: "CartService \<Rightarrow> bool" where
  "consistent s \<longleftrightarrow> cartCount s = sum_list (map quantity (cartItems s))"

section \<open>Auxiliary facts\<close>

lemma foldl_plus_sum_list:
  "foldl (\<lambda>total item. total + f item) a xs = a + sum_list (map f xs)"
  for a :: number
  by (induction xs arbitrary: a) simp_all

lemma cartItems_updateCartCount [simp]: "cartItems (updateCartCount s) = cartItems s"
  by (simp add: updateCartCount_def cartCount_next_def Let_def)

lemma cartCount_updateCartCount [simp]:
  "cartCount (updateCartCount s) = sum_list (map quantity (cartItems s))"
  by (simp add: updateCartCount_def cartCount_next_def foldl_plus_sum_list Let_def)

lemma emitted_updateCartCount [simp]:
  "emitted (updateCartCount s) =
     emitted s @ [CartCountNext (sum_list (map quantity (cartItems s)))]"
  by (simp add: updateCartCount_def cartCount_next_def foldl_plus_sum_list Let_def)

lemma cartItems_cartItems_next [simp]: "cartItems (cartItems_next v s) = v"
  by (simp add: cartItems_next_def)

lemma cartCount_cartItems_next [simp]: "cartCount (cartItems_next v s) = cartCount s"
  by (simp add: cartItems_next_def)

lemma emitted_cartItems_next [simp]:
  "emitted (cartItems_next v s) = emitted s @ [CartItemsNext v]"
  by (simp add: cartItems_next_def)

lemma update_found_unchanged:
  "List.find P xs = None \<Longrightarrow> update_found P f xs = xs"
  by (induction xs) (auto split: if_splits)

lemma update_found_split:
  "List.find P xs = Some y \<Longrightarrow>
     \<exists>pre post. xs = pre @ y # post \<and> list_all (\<lambda>x. \<not> P x) pre \<and> P y
       \<and> update_found P f xs = pre @ f y # post"
proof (induction xs)
  case Nil
  then show ?case by simp
next
  case (Cons x xs)
  show ?case
  proof (cases "P x")
    case True
    with Cons.prems have "x = y" by simp
    with True have "x # xs = [] @ y # xs \<and> list_all (\<lambda>x. \<not> P x) [] \<and> P y
       \<and> update_found P f (x # xs) = [] @ f y # xs" by simp
    then show ?thesis by blast
  next
    case False
    with Cons.prems have "List.find P xs = Some y" by simp
    from Cons.IH [OF this] obtain pre post where
      "xs = pre @ y # post" "list_all (\<lambda>x. \<not> P x) pre" "P y"
      "update_found P f xs = pre @ f y # post" by blast
    with False have "x # xs = (x # pre) @ y # post \<and> list_all (\<lambda>x. \<not> P x) (x # pre) \<and> P y
       \<and> update_found P f (x # xs) = (x # pre) @ f y # post" by simp
    then show ?thesis by blast
  qed
qed

lemma map_update_found:
  "(\<And>x. g (f x) = g x) \<Longrightarrow> map g (update_found P f xs) = map g xs"
  by (induction xs) auto

lemma find_id_None: "List.find (\<lambda>item. id' item = x) xs = None \<longleftrightarrow> x \<notin> id' ` set xs"
  by (auto simp: find_None_iff)

lemma find_id_Some: "x \<in> id' ` set xs \<Longrightarrow> \<exists>y. List.find (\<lambda>item. id' item = x) xs = Some y"
  by (cases "List.find (\<lambda>item. id' item = x) xs") (auto simp: find_None_iff)

lemma truncate_quantity [simp]:
  "Product.truncate (item\<lparr>quantity := q\<rparr>) = Product.truncate item"
  by (simp add: Product.truncate_def)

subsection \<open>Rounding to a double\<close>

lemma binary_exponent_ge_1:
  "1 \<le> x \<Longrightarrow> 0 \<le> binary_exponent n x \<and> 2 powi (binary_exponent n x) \<le> x"
proof (induction n arbitrary: x)
  case 0
  then show ?case by simp
next
  case (Suc n)
  show ?case
  proof (cases "2 \<le> x")
    case True
    then have "1 \<le> x / 2" by simp
    from Suc.IH [OF this] have ih: "0 \<le> binary_exponent n (x / 2)"
      "2 powi (binary_exponent n (x / 2)) \<le> x / 2" by simp_all
    from ih have "2 powi (binary_exponent n (x / 2) + 1) \<le> x"
      by (simp add: power_int_add)
    with ih True show ?thesis by simp
  next
    case False
    with Suc.prems show ?thesis by simp
  qed
qed

lemma round_half_even_of_int: "round_half_even (of_int k) = k"
  by (simp add: round_half_even_def)

lemma round_double_of_nat:
  assumes "real n < 2 ^ 53"
  shows "round_double (real n) = real n"
proof (cases "n = 0")
  case True
  then show ?thesis by (simp add: round_double_def)
next
  case False
  define e where "e = binary_exponent 1100 (real n)"
  from False have "1 \<le> real n" by simp
  from binary_exponent_ge_1 [OF this, of 1100]
  have e0: "0 \<le> e" and le: "2 powi e \<le> real n" by (simp_all add: e_def)
  from le assms have "(2::real) powi e < 2 powi 53" by simp
  then have e53: "e < 53"
    by (rule power_int_le_imp_less_exp [rotated]) simp_all
  define k where "k = nat (52 - e)"
  from e0 e53 have ek: "e - 52 = - int k" by (simp add: k_def)
  have q: "(2::real) powi (e - 52) = 1 / 2 ^ k"
    by (simp add: ek power_int_minus field_simps)
  have "real n / (2 powi (e - 52)) = of_int (int n * 2 ^ k)"
    by (simp add: q)
  then have "round_half_even (real n / (2 powi (e - 52))) = int n * 2 ^ k"
    by (simp only: round_half_even_of_int)
  with False e0 show ?thesis
    by (simp add: round_double_def e_def [symmetric] Let_def max_def q)
qed

lemma binary_exponent_bounds:
  "0 < x \<Longrightarrow> 2 powi (- int n) \<le> x \<Longrightarrow> x < 2 powi (int n + 1) \<Longrightarrow>
   2 powi (binary_exponent n x) \<le> x \<and> x < 2 powi (binary_exponent n x + 1)"
proof (induction n arbitrary: x)
  case 0
  then show ?case by simp
next
  case (Suc n)
  consider "2 \<le> x" | "x < 1" | "1 \<le> x" "x < 2" by linarith
  then show ?case
  proof cases
    case 1
    have a: "0 < x / 2" using Suc.prems by simp
    have "(2::real) powi (- int n) \<le> 1"
      by (simp add: power_int_minus field_simps one_le_power)
    with 1 have b: "2 powi (- int n) \<le> x / 2" by simp
    from Suc.prems have c: "x / 2 < 2 powi (int n + 1)"
      by (simp add: power_int_add)
    from Suc.IH [OF a b c] 1 show ?thesis
      by (simp add: power_int_add)
  next
    case 2
    have a: "0 < 2 * x" using Suc.prems by simp
    have eq: "- 1 - int n = - int n - 1" by simp
    have "(2::real) powi (- 1 - int n) = 2 powi (- int n) / 2"
      unfolding eq by (subst power_int_diff) simp_all
    with Suc.prems have b: "2 powi (- int n) \<le> 2 * x" by simp
    have "(1::real) \<le> 2 ^ n"
      by (simp add: one_le_power)
    with 2 have "x < 2 ^ n" by linarith
    then have c: "2 * x < 2 powi (int n + 1)"
      by (simp add: power_int_add)
    from Suc.IH [OF a b c] 2 show ?thesis
      by (simp add: power_int_diff power_int_add)
  next
    case 3
    then show ?thesis by simp
  qed
qed

lemma round_double_Nats: "x \<in> \<nat> \<Longrightarrow> x < 2 ^ 53 \<Longrightarrow> round_double x = x"
  by (auto simp: Nats_def round_double_of_nat)

lemma round_double_20: "round_double 20 = 20"
  using round_double_of_nat [of 20] by simp

lemma foldl_round_double_exact:
  "a \<in> \<nat> \<Longrightarrow> list_all (\<lambda>item. price item \<in> \<nat> \<and> quantity item \<in> \<nat>) xs \<Longrightarrow>
   a + (\<Sum>item \<leftarrow> xs. price item * quantity item) < 2 ^ 53 \<Longrightarrow>
   foldl (\<lambda>total item. round_double (total + round_double (price item * quantity item))) a xs
     = a + (\<Sum>item \<leftarrow> xs. price item * quantity item)"
proof (induction xs arbitrary: a)
  case Nil
  then show ?case by simp
next
  case (Cons y ys)
  let ?rest = "\<Sum>item \<leftarrow> ys. price item * quantity item"
  from Cons.prems have nat: "price y * quantity y \<in> \<nat>" "a + price y * quantity y \<in> \<nat>"
    by (simp_all add: Nats_mult Nats_add)
  from Cons.prems have "\<forall>item \<in> set ys. 0 \<le> price item * quantity item"
    by (auto simp: list_all_iff Nats_def)
  then have rest: "0 \<le> ?rest"
    by (auto intro!: sum_list_nonneg)
  from Cons.prems have a0: "0 \<le> a" by (auto elim: Nats_cases)
  from Cons.prems have bound: "a + price y * quantity y + ?rest < 2 ^ 53" by simp
  with rest a0 nat have p: "round_double (price y * quantity y) = price y * quantity y"
    by (intro round_double_Nats) (auto elim!: Nats_cases)
  from bound rest nat have s: "round_double (a + price y * quantity y) = a + price y * quantity y"
    by (intro round_double_Nats) auto
  from Cons.prems have ys: "list_all (\<lambda>item. price item \<in> \<nat> \<and> quantity item \<in> \<nat>) ys" by simp
  from Cons.IH [OF nat(2) ys bound] p s show ?case by simp
qed

subsection \<open>What each method does to the three components\<close>

lemma cartItems_addToCart:
  "cartItems (addToCart p s) =
     (case List.find (\<lambda>item. id' item = id' p) (cartItems s) of
        Some _ \<Rightarrow> update_found (\<lambda>item. id' item = id' p)
                    (\<lambda>item. item\<lparr>quantity := quantity item + 1\<rparr>) (cartItems s)
      | None \<Rightarrow> cartItems s @ [\<lparr>id' = id' p, name = name p, price = price p,
                                 image' = image' p, quantity = 1\<rparr>])"
  by (simp add: addToCart_def Let_def split: option.split)

lemma cartCount_addToCart:
  "cartCount (addToCart p s) = sum_list (map quantity (cartItems (addToCart p s)))"
  by (simp add: addToCart_def Let_def split: option.split)

lemma emitted_addToCart:
  "emitted (addToCart p s) =
     emitted s @ [CartItemsNext (cartItems (addToCart p s)),
                  CartCountNext (cartCount (addToCart p s))]"
  by (simp add: addToCart_def Let_def split: option.split)

lemma cartItems_removeFromCart:
  "cartItems (removeFromCart x s) = filter (\<lambda>item. id' item \<noteq> x) (cartItems s)"
  by (simp add: removeFromCart_def)

lemma cartCount_removeFromCart:
  "cartCount (removeFromCart x s) = sum_list (map quantity (cartItems (removeFromCart x s)))"
  by (simp add: removeFromCart_def)

lemma emitted_removeFromCart:
  "emitted (removeFromCart x s) =
     emitted s @ [CartItemsNext (cartItems (removeFromCart x s)),
                  CartCountNext (cartCount (removeFromCart x s))]"
  by (simp add: removeFromCart_def)

lemma cartItems_clearCart: "cartItems (clearCart s) = []"
  by (simp add: clearCart_def)

lemma cartCount_clearCart: "cartCount (clearCart s) = 0"
  by (simp add: clearCart_def)

lemma emitted_clearCart:
  "emitted (clearCart s) = emitted s @ [CartItemsNext [], CartCountNext 0]"
  by (simp add: clearCart_def)

lemma updateQuantity_nonpositive: "q \<le> 0 \<Longrightarrow> updateQuantity x q s = removeFromCart x s"
  by (simp add: updateQuantity_def)

lemma updateQuantity_absent:
  "0 < q \<Longrightarrow> x \<notin> id' ` set (cartItems s) \<Longrightarrow> updateQuantity x q s = s"
  by (simp add: updateQuantity_def find_id_None [THEN iffD2])

lemma cartItems_updateQuantity_present:
  "0 < q \<Longrightarrow> x \<in> id' ` set (cartItems s) \<Longrightarrow>
   cartItems (updateQuantity x q s) =
     update_found (\<lambda>item. id' item = x) (\<lambda>item. item\<lparr>quantity := q\<rparr>) (cartItems s)"
  using find_id_Some [of x "cartItems s"] by (auto simp: updateQuantity_def)

lemma cartCount_updateQuantity_present:
  "0 < q \<Longrightarrow> x \<in> id' ` set (cartItems s) \<Longrightarrow>
   cartCount (updateQuantity x q s) = sum_list (map quantity (cartItems (updateQuantity x q s)))"
  using find_id_Some [of x "cartItems s"] by (auto simp: updateQuantity_def)

lemma emitted_updateQuantity_present:
  "0 < q \<Longrightarrow> x \<in> id' ` set (cartItems s) \<Longrightarrow>
   emitted (updateQuantity x q s) =
     emitted s @ [CartItemsNext (cartItems (updateQuantity x q s)),
                  CartCountNext (cartCount (updateQuantity x q s))]"
  using find_id_Some [of x "cartItems s"] by (auto simp: updateQuantity_def)

subsection \<open>Invariants of a call\<close>


lemma consistent_apply_operation:
  "consistent s \<Longrightarrow> consistent (apply_operation operation s)"
proof (cases operation)
  case (UpdateQuantity x q)
  assume s: "consistent s"
  consider "q \<le> 0" | "0 < q" "x \<in> id' ` set (cartItems s)" | "0 < q" "x \<notin> id' ` set (cartItems s)"
    by fastforce
  then show ?thesis
  proof cases
    case 1
    then show ?thesis
      by (simp add: UpdateQuantity consistent_def updateQuantity_nonpositive cartCount_removeFromCart)
  next
    case 2
    then show ?thesis
      by (simp add: UpdateQuantity consistent_def cartCount_updateQuantity_present)
  next
    case 3
    with s show ?thesis
      by (simp add: UpdateQuantity updateQuantity_absent)
  qed
qed (simp_all add: consistent_def cartCount_addToCart cartCount_removeFromCart
       cartItems_clearCart cartCount_clearCart)

lemma distinct_addToCart:
  "distinct (map id' (cartItems s)) \<Longrightarrow> distinct (map id' (cartItems (addToCart p s)))"
  by (auto simp: cartItems_addToCart map_update_found find_None_iff split: option.split)

lemma distinct_updateQuantity:
  "distinct (map id' (cartItems s)) \<Longrightarrow> distinct (map id' (cartItems (updateQuantity x q s)))"
  by (auto simp: updateQuantity_def Let_def cartItems_removeFromCart distinct_map_filter
        map_update_found split: option.split)

lemma distinct_apply_operation:
  "distinct (map id' (cartItems s)) \<Longrightarrow>
   distinct (map id' (cartItems (apply_operation operation s)))"
  by (cases operation)
    (simp_all add: distinct_addToCart distinct_updateQuantity cartItems_removeFromCart
       distinct_map_filter cartItems_clearCart)

lemma run_snoc: "run (ops @ [operation]) = apply_operation operation (run ops)"
  by (simp add: run_def)

lemma run_Nil: "run [] = init"
  by (simp add: run_def)

lemma consistent_init: "consistent init"
  by (simp add: consistent_def init_def)

lemma consistent_run: "consistent (run ops)"
  by (induction ops rule: rev_induct)
    (simp_all add: run_Nil run_snoc consistent_apply_operation consistent_init)

lemma distinct_run: "distinct (map id' (cartItems (run ops)))"
  by (induction ops rule: rev_induct)
    (simp_all add: run_Nil run_snoc distinct_apply_operation init_def)

lemma apply_operation_emits:
  "apply_operation operation s = s \<or>
   emitted (apply_operation operation s) =
     emitted s @ [CartItemsNext (cartItems (apply_operation operation s)),
                  CartCountNext (cartCount (apply_operation operation s))]"
proof (cases operation)
  case (UpdateQuantity x q)
  consider "q \<le> 0" | "0 < q" "x \<in> id' ` set (cartItems s)" | "0 < q" "x \<notin> id' ` set (cartItems s)"
    by fastforce
  then show ?thesis
  proof cases
    case 1
    then show ?thesis
      using emitted_removeFromCart [of x s] by (simp add: UpdateQuantity updateQuantity_nonpositive)
  next
    case 2
    then show ?thesis
      by (simp add: UpdateQuantity emitted_updateQuantity_present)
  next
    case 3
    then show ?thesis
      by (simp add: UpdateQuantity updateQuantity_absent)
  qed
next
  case (AddToCart p)
  then show ?thesis using emitted_addToCart [of p s] by simp
next
  case (RemoveFromCart x)
  then show ?thesis using emitted_removeFromCart [of x s] by simp
next
  case ClearCart
  then show ?thesis
    by (simp add: emitted_clearCart cartItems_clearCart cartCount_clearCart)
qed

lemma last_sent_run:
  "emitted (run ops) = [] \<and> cartItems (run ops) = [] \<and> cartCount (run ops) = 0 \<or>
   (\<exists>es. emitted (run ops) =
      es @ [CartItemsNext (cartItems (run ops)), CartCountNext (cartCount (run ops))])"
proof (induction ops rule: rev_induct)
  case Nil
  show ?case by (simp add: run_Nil init_def)
next
  case (snoc operation ops)
  from apply_operation_emits [of operation "run ops"] show ?case
  proof
    assume "apply_operation operation (run ops) = run ops"
    with snoc show ?thesis by (simp add: run_snoc)
  next
    assume "emitted (apply_operation operation (run ops)) =
      emitted (run ops) @ [CartItemsNext (cartItems (apply_operation operation (run ops))),
                  CartCountNext (cartCount (apply_operation operation (run ops)))]"
    then show ?thesis by (simp add: run_snoc)
  qed
qed

lemma update_found_same:
  "distinct (map id' xs) \<Longrightarrow> item \<in> set xs \<Longrightarrow>
   update_found (\<lambda>i. id' i = id' item) (\<lambda>i. i\<lparr>quantity := quantity item\<rparr>) xs = xs"
proof (induction xs)
  case Nil
  then show ?case by simp
next
  case (Cons y ys)
  show ?case
  proof (cases "id' y = id' item")
    case True
    with Cons.prems have "y = item" by force
    then show ?thesis by simp
  next
    case False
    with Cons show ?thesis by auto
  qed
qed

lemma removeFromCart_absent:
  "x \<notin> id' ` set (cartItems s) \<Longrightarrow> consistent s \<Longrightarrow>
   removeFromCart x s =
     s\<lparr>emitted := emitted s @ [CartItemsNext (cartItems s), CartCountNext (cartCount s)]\<rparr>"
proof -
  assume absent: "x \<notin> id' ` set (cartItems s)" and c: "consistent s"
  from absent have "filter (\<lambda>item. id' item \<noteq> x) (cartItems s) = cartItems s"
    by (auto simp: filter_id_conv)
  with c show ?thesis
    by (simp add: removeFromCart_def updateCartCount_def cartItems_next_def cartCount_next_def
         foldl_plus_sum_list consistent_def Let_def)
qed

section \<open>Invariants of the cart\<close>

text \<open>
  C2. After every call of a sequence of \<^verbatim>\<open>addToCart\<close>, \<^verbatim>\<open>removeFromCart\<close>,
  \<^verbatim>\<open>updateQuantity\<close> and \<^verbatim>\<open>clearCart\<close> on a new service (the first \<open>n\<close> calls of any
  sequence \<open>ops\<close>), the count is the sum of the quantities of the items. The values are
  the published ones: either nothing was sent yet and the feeds hold their initial values
  \<open>[]\<close> and \<open>0\<close>, or the last two notifications carry exactly the current items and the
  current count.
\<close>

theorem totalCount_consistent:
  "cartCount (run (take n ops)) = (\<Sum>item \<leftarrow> cartItems (run (take n ops)). quantity item)
   \<and> (emitted (run (take n ops)) = [] \<and> cartItems (run (take n ops)) = []
        \<and> cartCount (run (take n ops)) = 0
      \<or> (\<exists>es. emitted (run (take n ops)) =
            es @ [CartItemsNext (cartItems (run (take n ops))),
                  CartCountNext (cartCount (run (take n ops)))]))"
  using consistent_run [of "take n ops"] last_sent_run [of "take n ops"]
  by (simp add: consistent_def)

text \<open>
  C3. After every sequence of the four mutating calls on a new service, and so after every
  sequence of \<^verbatim>\<open>addToCart\<close> calls, no two items of the cart have the same id.
\<close>

theorem unique_productId: "distinct (map id' (cartItems (run ops)))"
  by (rule distinct_run)

section \<open>Adding a product\<close>

text \<open>
  C4. \<^verbatim>\<open>addToCart\<close> of a product whose id is in the cart adds 1 to the quantity of the
  first item with that id and changes nothing else: name, price and image of the item stay
  what they were, and every other item stays in place. With the id not in the cart, it
  appends an item with the fields of the product and quantity 1. Adding a product with id 1
  and price 10 twice to a new service gives one item with quantity 2, the count 2 and the
  total price 20.
\<close>

theorem addToCart_increment_or_append:
  "(id' p \<in> id' ` set (cartItems s) \<longrightarrow>
      (\<exists>pre item post.
         cartItems s = pre @ item # post \<and> id' item = id' p \<and> id' p \<notin> id' ` set pre
         \<and> cartItems (addToCart p s) = pre @ item\<lparr>quantity := quantity item + 1\<rparr> # post))
   \<and> (id' p \<notin> id' ` set (cartItems s) \<longrightarrow>
      cartItems (addToCart p s) =
        cartItems s @ [\<lparr>id' = id' p, name = name p, price = price p, image' = image' p,
                         quantity = 1\<rparr>])
   \<and> (id' p = 1 \<and> price p = 10 \<longrightarrow>
      cartItems (addToCart p (addToCart p init)) =
        [\<lparr>id' = 1, name = name p, price = 10, image' = image' p, quantity = 2\<rparr>]
      \<and> cartCount (addToCart p (addToCart p init)) = 2
      \<and> fst (getTotalPrice (addToCart p (addToCart p init))) = 20)"
proof (intro conjI impI)
  assume "id' p \<in> id' ` set (cartItems s)"
  then obtain y where y: "List.find (\<lambda>item. id' item = id' p) (cartItems s) = Some y"
    using find_id_Some by blast
  from update_found_split [OF y, of "\<lambda>item. item\<lparr>quantity := quantity item + 1\<rparr>"]
  obtain pre post where
    "cartItems s = pre @ y # post" "list_all (\<lambda>item. id' item \<noteq> id' p) pre" "id' y = id' p"
    "update_found (\<lambda>item. id' item = id' p) (\<lambda>item. item\<lparr>quantity := quantity item + 1\<rparr>)
       (cartItems s) = pre @ y\<lparr>quantity := quantity y + 1\<rparr> # post"
    by blast
  with y have "cartItems s = pre @ y # post \<and> id' y = id' p \<and> id' p \<notin> id' ` set pre
         \<and> cartItems (addToCart p s) = pre @ y\<lparr>quantity := quantity y + 1\<rparr> # post"
    by (auto simp: cartItems_addToCart list_all_iff)
  then show "\<exists>pre item post.
         cartItems s = pre @ item # post \<and> id' item = id' p \<and> id' p \<notin> id' ` set pre
         \<and> cartItems (addToCart p s) = pre @ item\<lparr>quantity := quantity item + 1\<rparr> # post"
    by blast
next
  assume "id' p \<notin> id' ` set (cartItems s)"
  then show "cartItems (addToCart p s) =
        cartItems s @ [\<lparr>id' = id' p, name = name p, price = price p, image' = image' p,
                         quantity = 1\<rparr>]"
    by (simp add: cartItems_addToCart find_id_None [THEN iffD2])
next
  assume a: "id' p = 1 \<and> price p = 10"
  then show items: "cartItems (addToCart p (addToCart p init)) =
        [\<lparr>id' = 1, name = name p, price = 10, image' = image' p, quantity = 2\<rparr>]"
    by (simp add: cartItems_addToCart init_def)
  then show "cartCount (addToCart p (addToCart p init)) = 2"
    by (simp add: cartCount_addToCart)
  from items show "fst (getTotalPrice (addToCart p (addToCart p init))) = 20"
    by (simp add: getTotalPrice_def round_double_20)
qed

text \<open>
  The three hypotheses at concrete services: the added product carries another name and
  price than the stored item, which keeps its own.
\<close>

theorem addToCart_increment_or_append_witness:
  "1 \<in> id' ` set [\<lparr>id' = 2, name = ''B'', price = 5, image' = None, quantity = 1\<rparr>,
                   \<lparr>id' = 1, name = ''A'', price = 10, image' = Some ''a.png'', quantity = 4\<rparr>]
   \<and> cartItems (addToCart \<lparr>id' = 1, name = ''A2'', price = 12, image' = None\<rparr>
        \<lparr>cartItems = [\<lparr>id' = 2, name = ''B'', price = 5, image' = None, quantity = 1\<rparr>,
                      \<lparr>id' = 1, name = ''A'', price = 10, image' = Some ''a.png'', quantity = 4\<rparr>],
         cartCount = 5, emitted = []\<rparr>)
      = [\<lparr>id' = 2, name = ''B'', price = 5, image' = None, quantity = 1\<rparr>,
         \<lparr>id' = 1, name = ''A'', price = 10, image' = Some ''a.png'', quantity = 5\<rparr>]
   \<and> 3 \<notin> id' ` set [\<lparr>id' = 2, name = ''B'', price = 5, image' = None, quantity = 1\<rparr>]
   \<and> cartItems (addToCart \<lparr>id' = 3, name = ''C'', price = 7, image' = None\<rparr>
        \<lparr>cartItems = [\<lparr>id' = 2, name = ''B'', price = 5, image' = None, quantity = 1\<rparr>],
         cartCount = 1, emitted = []\<rparr>)
      = [\<lparr>id' = 2, name = ''B'', price = 5, image' = None, quantity = 1\<rparr>,
         \<lparr>id' = 3, name = ''C'', price = 7, image' = None, quantity = 1\<rparr>]
   \<and> cartItems (addToCart \<lparr>id' = 1, name = ''A'', price = 10, image' = None\<rparr>
        (addToCart \<lparr>id' = 1, name = ''A'', price = 10, image' = None\<rparr> init))
      = [\<lparr>id' = 1, name = ''A'', price = 10, image' = None, quantity = 2\<rparr>]
   \<and> cartCount (addToCart \<lparr>id' = 1, name = ''A'', price = 10, image' = None\<rparr>
        (addToCart \<lparr>id' = 1, name = ''A'', price = 10, image' = None\<rparr> init)) = 2
   \<and> fst (getTotalPrice (addToCart \<lparr>id' = 1, name = ''A'', price = 10, image' = None\<rparr>
        (addToCart \<lparr>id' = 1, name = ''A'', price = 10, image' = None\<rparr> init))) = 20"
  using
    addToCart_increment_or_append [of "\<lparr>id' = 1, name = ''A2'', price = 12, image' = None\<rparr>"
        "\<lparr>cartItems = [\<lparr>id' = 2, name = ''B'', price = 5, image' = None, quantity = 1\<rparr>,
                      \<lparr>id' = 1, name = ''A'', price = 10, image' = Some ''a.png'', quantity = 4\<rparr>],
         cartCount = 5, emitted = []\<rparr>"]
    addToCart_increment_or_append [of "\<lparr>id' = 3, name = ''C'', price = 7, image' = None\<rparr>"
        "\<lparr>cartItems = [\<lparr>id' = 2, name = ''B'', price = 5, image' = None, quantity = 1\<rparr>],
         cartCount = 1, emitted = []\<rparr>"]
    addToCart_increment_or_append [of "\<lparr>id' = 1, name = ''A'', price = 10, image' = None\<rparr>" init]
  by (simp add: cartItems_addToCart)

section \<open>Removing and setting a quantity\<close>

text \<open>
  C1, as the code has it. \<^verbatim>\<open>removeFromCart\<close> of an id that is not in the cart leaves the
  items as they are and, when the count is the sum of the quantities (as in every service
  reached from a new one), the count too; it sends one notification on each feed, the items
  first and then the count, each with the unchanged value.
\<close>

theorem removeFromCart_unknown_id:
  "(x \<notin> id' ` set (cartItems s) \<and> cartCount s = (\<Sum>item \<leftarrow> cartItems s. quantity item) \<longrightarrow>
      removeFromCart x s =
        s\<lparr>emitted := emitted s @ [CartItemsNext (cartItems s), CartCountNext (cartCount s)]\<rparr>)
   \<and> (x \<notin> id' ` set (cartItems (run ops)) \<longrightarrow>
      removeFromCart x (run ops) =
        (run ops)\<lparr>emitted := emitted (run ops) @
          [CartItemsNext (cartItems (run ops)), CartCountNext (cartCount (run ops))]\<rparr>)"
  using removeFromCart_absent [of x s] removeFromCart_absent [of x "run ops"] consistent_run [of ops]
  by (simp add: consistent_def)

text \<open>
  Both hypotheses at concrete services.
\<close>

theorem removeFromCart_unknown_id_witness:
  "2 \<notin> id' ` set [\<lparr>id' = 1, name = ''A'', price = 10, image' = None, quantity = 3\<rparr>]
   \<and> removeFromCart 2
        \<lparr>cartItems = [\<lparr>id' = 1, name = ''A'', price = 10, image' = None, quantity = 3\<rparr>],
         cartCount = 3, emitted = []\<rparr>
      = \<lparr>cartItems = [\<lparr>id' = 1, name = ''A'', price = 10, image' = None, quantity = 3\<rparr>],
         cartCount = 3,
         emitted = [CartItemsNext [\<lparr>id' = 1, name = ''A'', price = 10, image' = None, quantity = 3\<rparr>],
                    CartCountNext 3]\<rparr>
   \<and> 2 \<notin> id' ` set (cartItems (run [AddToCart \<lparr>id' = 1, name = ''A'', price = 10, image' = None\<rparr>]))
   \<and> cartItems (removeFromCart 2 (run [AddToCart \<lparr>id' = 1, name = ''A'', price = 10, image' = None\<rparr>]))
      = [\<lparr>id' = 1, name = ''A'', price = 10, image' = None, quantity = 1\<rparr>]
   \<and> emitted (removeFromCart 2 (run [AddToCart \<lparr>id' = 1, name = ''A'', price = 10, image' = None\<rparr>]))
      = [CartItemsNext [\<lparr>id' = 1, name = ''A'', price = 10, image' = None, quantity = 1\<rparr>],
         CartCountNext 1,
         CartItemsNext [\<lparr>id' = 1, name = ''A'', price = 10, image' = None, quantity = 1\<rparr>],
         CartCountNext 1]"
  using removeFromCart_unknown_id [of 2
      "\<lparr>cartItems = [\<lparr>id' = 1, name = ''A'', price = 10, image' = None, quantity = 3\<rparr>],
         cartCount = 3, emitted = []\<rparr>"
      "[AddToCart \<lparr>id' = 1, name = ''A'', price = 10, image' = None\<rparr>]"]
  by (simp add: run_def init_def cartItems_addToCart emitted_addToCart cartCount_addToCart)

text \<open>
  C1 as stated, that nothing is sent, fails on a new service: id 99 is not in the cart,
  no notification has been sent, and \<^verbatim>\<open>removeFromCart(99)\<close> sends two.
\<close>

theorem absent_removal_still_notifies:
  "99 \<notin> id' ` set (cartItems init)
   \<and> emitted init = []
   \<and> emitted (removeFromCart 99 init) = [CartItemsNext [], CartCountNext 0]
   \<and> emitted (removeFromCart 99 init) \<noteq> emitted init"
  by (simp add: init_def emitted_removeFromCart cartItems_removeFromCart cartCount_removeFromCart)

text \<open>
  C5. With a quantity of 0 or less, \<^verbatim>\<open>updateQuantity\<close> is \<^verbatim>\<open>removeFromCart\<close>: the same
  items, count and notifications; and no item with that id is in the cart afterwards.
\<close>

theorem updateQuantity_floor:
  "q \<le> 0 \<Longrightarrow>
   updateQuantity x q s = removeFromCart x s
   \<and> x \<notin> id' ` set (cartItems (updateQuantity x q s))"
  by (auto simp: updateQuantity_nonpositive cartItems_removeFromCart)

text \<open>
  The quantities 0 and -5 on a cart that holds the id.
\<close>

theorem updateQuantity_floor_witness:
  "(0::number) \<le> 0 \<and> (-5::number) \<le> 0
   \<and> updateQuantity 1 0 (addToCart \<lparr>id' = 1, name = ''A'', price = 10, image' = None\<rparr> init)
       = removeFromCart 1 (addToCart \<lparr>id' = 1, name = ''A'', price = 10, image' = None\<rparr> init)
   \<and> cartItems (updateQuantity 1 0
        (addToCart \<lparr>id' = 1, name = ''A'', price = 10, image' = None\<rparr> init)) = []
   \<and> cartItems (updateQuantity 1 (-5)
        (addToCart \<lparr>id' = 1, name = ''A'', price = 10, image' = None\<rparr> init)) = []"
  using updateQuantity_floor [of 0 1 "addToCart \<lparr>id' = 1, name = ''A'', price = 10, image' = None\<rparr> init"]
    updateQuantity_floor [of "-5" 1 "addToCart \<lparr>id' = 1, name = ''A'', price = 10, image' = None\<rparr> init"]
  by (simp add: cartItems_removeFromCart cartItems_addToCart init_def)

text \<open>
  C6. With a positive quantity and an id that is not in the cart, \<^verbatim>\<open>updateQuantity\<close>
  returns the service as it was: no item is created, items and count are unchanged and
  nothing is sent. \<^verbatim>\<open>updateQuantity(99, 5)\<close> on a new service leaves the items empty.
\<close>

theorem updateQuantity_unknown_id:
  "(0 < q \<and> x \<notin> id' ` set (cartItems s) \<longrightarrow> updateQuantity x q s = s)
   \<and> updateQuantity 99 5 init = init
   \<and> cartItems (updateQuantity 99 5 init) = []"
  by (simp add: updateQuantity_absent init_def)

text \<open>
  The hypothesis on a cart that holds another id.
\<close>

theorem updateQuantity_unknown_id_witness:
  "(0::number) < 5 \<and> 2 \<notin> id' ` set (cartItems (addToCart \<lparr>id' = 1, name = ''A'', price = 10, image' = None\<rparr> init))
   \<and> updateQuantity 2 5 (addToCart \<lparr>id' = 1, name = ''A'', price = 10, image' = None\<rparr> init)
      = addToCart \<lparr>id' = 1, name = ''A'', price = 10, image' = None\<rparr> init"
  using updateQuantity_unknown_id [of 5 2 "addToCart \<lparr>id' = 1, name = ''A'', price = 10, image' = None\<rparr> init"]
  by (simp add: cartItems_addToCart init_def)

text \<open>
  C10. When the cart holds an item with id \<open>x\<close> and quantity \<open>q > 0\<close>, in a service with
  unique ids and a consistent count (as is every service reached from a new one),
  \<^verbatim>\<open>updateQuantity(x, q)\<close> changes neither items nor count and still sends one notification
  on each feed, carrying the values the feeds already had.
\<close>

theorem updateQuantity_same_value_notifies:
  "(item \<in> set (cartItems s) \<and> id' item = x \<and> quantity item = q \<and> 0 < q
      \<and> distinct (map id' (cartItems s))
      \<and> cartCount s = (\<Sum>item \<leftarrow> cartItems s. quantity item) \<longrightarrow>
    updateQuantity x q s =
      s\<lparr>emitted := emitted s @ [CartItemsNext (cartItems s), CartCountNext (cartCount s)]\<rparr>)
   \<and> (item \<in> set (cartItems (run ops)) \<and> id' item = x \<and> quantity item = q \<and> 0 < q \<longrightarrow>
    updateQuantity x q (run ops) =
      (run ops)\<lparr>emitted := emitted (run ops) @
         [CartItemsNext (cartItems (run ops)), CartCountNext (cartCount (run ops))]\<rparr>)"
proof -
  have general: "updateQuantity x q t =
      t\<lparr>emitted := emitted t @ [CartItemsNext (cartItems t), CartCountNext (cartCount t)]\<rparr>"
    if "item \<in> set (cartItems t)" "id' item = x" "quantity item = q" "0 < q"
      "distinct (map id' (cartItems t))" "consistent t" for t
  proof -
    from that have present: "x \<in> id' ` set (cartItems t)" by auto
    then obtain y where y: "List.find (\<lambda>item. id' item = x) (cartItems t) = Some y"
      using find_id_Some by blast
    from that have same:
      "update_found (\<lambda>i. id' i = x) (\<lambda>i. i\<lparr>quantity := q\<rparr>) (cartItems t) = cartItems t"
      using update_found_same [of "cartItems t" item] by simp
    from that y same show ?thesis
      by (simp add: updateQuantity_def updateCartCount_def cartItems_next_def cartCount_next_def
           foldl_plus_sum_list consistent_def Let_def)
  qed
  from general [of s] general [of "run ops"] consistent_run [of ops] distinct_run [of ops]
  show ?thesis by (simp add: consistent_def)
qed

text \<open>
  Both hypotheses at concrete services.
\<close>

theorem updateQuantity_same_value_notifies_witness:
  "\<lparr>id' = 1, name = ''A'', price = 10, image' = None, quantity = 3\<rparr>
      \<in> set [\<lparr>id' = 1, name = ''A'', price = 10, image' = None, quantity = 3\<rparr>]
   \<and> (0::number) < 3
   \<and> updateQuantity 1 3
        \<lparr>cartItems = [\<lparr>id' = 1, name = ''A'', price = 10, image' = None, quantity = 3\<rparr>],
         cartCount = 3, emitted = []\<rparr>
      = \<lparr>cartItems = [\<lparr>id' = 1, name = ''A'', price = 10, image' = None, quantity = 3\<rparr>],
         cartCount = 3,
         emitted = [CartItemsNext [\<lparr>id' = 1, name = ''A'', price = 10, image' = None, quantity = 3\<rparr>],
                    CartCountNext 3]\<rparr>
   \<and> cartItems (run [AddToCart \<lparr>id' = 1, name = ''A'', price = 10, image' = None\<rparr>])
      = [\<lparr>id' = 1, name = ''A'', price = 10, image' = None, quantity = 1\<rparr>]
   \<and> emitted (updateQuantity 1 1 (run [AddToCart \<lparr>id' = 1, name = ''A'', price = 10, image' = None\<rparr>]))
      = [CartItemsNext [\<lparr>id' = 1, name = ''A'', price = 10, image' = None, quantity = 1\<rparr>],
         CartCountNext 1,
         CartItemsNext [\<lparr>id' = 1, name = ''A'', price = 10, image' = None, quantity = 1\<rparr>],
         CartCountNext 1]"
  using updateQuantity_same_value_notifies
     [of "\<lparr>id' = 1, name = ''A'', price = 10, image' = None, quantity = 3\<rparr>"
         "\<lparr>cartItems = [\<lparr>id' = 1, name = ''A'', price = 10, image' = None, quantity = 3\<rparr>],
           cartCount = 3, emitted = []\<rparr>" 1 3 "[]"]
    updateQuantity_same_value_notifies
     [of "\<lparr>id' = 1, name = ''A'', price = 10, image' = None, quantity = 1\<rparr>"
         init 1 1 "[AddToCart \<lparr>id' = 1, name = ''A'', price = 10, image' = None\<rparr>]"]
  by (simp add: run_def init_def cartItems_addToCart emitted_addToCart cartCount_addToCart)

section \<open>The total price\<close>

text \<open>
  C7, as the code has it. \<^verbatim>\<open>getTotalPrice\<close> returns the sum of price times quantity over
  the current items as doubles compute it, from left to right, each product and each
  partial sum rounded to the nearest double. That is the exact sum when prices and
  quantities are natural numbers and the sum is below \<open>2 ^ 53\<close>. The call leaves the service
  as it was: items, count and the trace of notifications are unchanged. After
  \<^verbatim>\<open>addToCart\<close> of a product with id 1 and then \<^verbatim>\<open>clearCart\<close> on a new service, it returns
  0 and the items are empty.
\<close>

theorem getTotalPrice_rounded_sum:
  "fst (getTotalPrice s) =
     foldl (\<lambda>total item. round_double (total + round_double (price item * quantity item)))
       0 (cartItems s)
   \<and> ((\<forall>item \<in> set (cartItems s). price item \<in> \<nat> \<and> quantity item \<in> \<nat>)
        \<and> (\<Sum>item \<leftarrow> cartItems s. price item * quantity item) < 2 ^ 53 \<longrightarrow>
      fst (getTotalPrice s) = (\<Sum>item \<leftarrow> cartItems s. price item * quantity item))
   \<and> snd (getTotalPrice s) = s
   \<and> fst (getTotalPrice (clearCart (addToCart (p\<lparr>id' := 1\<rparr>) init))) = 0
   \<and> cartItems (clearCart (addToCart (p\<lparr>id' := 1\<rparr>) init)) = []"
proof (intro conjI impI)
  assume "(\<forall>item \<in> set (cartItems s). price item \<in> \<nat> \<and> quantity item \<in> \<nat>)
        \<and> (\<Sum>item \<leftarrow> cartItems s. price item * quantity item) < 2 ^ 53"
  then have "list_all (\<lambda>item. price item \<in> \<nat> \<and> quantity item \<in> \<nat>) (cartItems s)"
    and "0 + (\<Sum>item \<leftarrow> cartItems s. price item * quantity item) < 2 ^ 53"
    by (simp_all add: list_all_iff)
  from foldl_round_double_exact [OF _ this]
  show "fst (getTotalPrice s) = (\<Sum>item \<leftarrow> cartItems s. price item * quantity item)"
    by (simp add: getTotalPrice_def)
qed (simp_all add: getTotalPrice_def cartItems_clearCart)

text \<open>
  The hypothesis on the cart of \<^verbatim>\<open>addToCart\<close> with id 1 and price 10, \<^verbatim>\<open>addToCart\<close> with
  id 2 and price 5, and \<^verbatim>\<open>updateQuantity(1, 3)\<close>: the total is 35.
\<close>

theorem getTotalPrice_rounded_sum_witness:
  "cartItems (run [AddToCart \<lparr>id' = 1, name = ''A'', price = 10, image' = None\<rparr>,
                   AddToCart \<lparr>id' = 2, name = ''B'', price = 5, image' = None\<rparr>,
                   UpdateQuantity 1 3])
     = [\<lparr>id' = 1, name = ''A'', price = 10, image' = None, quantity = 3\<rparr>,
        \<lparr>id' = 2, name = ''B'', price = 5, image' = None, quantity = 1\<rparr>]
   \<and> (10::real) \<in> \<nat> \<and> (3::real) \<in> \<nat> \<and> (5::real) \<in> \<nat> \<and> (1::real) \<in> \<nat>
   \<and> (10 * 3 + 5 * 1 :: real) < 2 ^ 53
   \<and> fst (getTotalPrice
        (run [AddToCart \<lparr>id' = 1, name = ''A'', price = 10, image' = None\<rparr>,
              AddToCart \<lparr>id' = 2, name = ''B'', price = 5, image' = None\<rparr>,
              UpdateQuantity 1 3])) = 35"
proof -
  have items: "cartItems (run [AddToCart \<lparr>id' = 1, name = ''A'', price = 10, image' = None\<rparr>,
                   AddToCart \<lparr>id' = 2, name = ''B'', price = 5, image' = None\<rparr>,
                   UpdateQuantity 1 3])
     = [\<lparr>id' = 1, name = ''A'', price = 10, image' = None, quantity = 3\<rparr>,
        \<lparr>id' = 2, name = ''B'', price = 5, image' = None, quantity = 1\<rparr>]"
    by (simp add: run_def init_def cartItems_addToCart cartItems_updateQuantity_present)
  with getTotalPrice_rounded_sum
     [THEN conjunct2, THEN conjunct1,
      of "run [AddToCart \<lparr>id' = 1, name = ''A'', price = 10, image' = None\<rparr>,
               AddToCart \<lparr>id' = 2, name = ''B'', price = 5, image' = None\<rparr>,
               UpdateQuantity 1 3]"]
  show ?thesis by simp
qed

text \<open>
  C7 as stated, that the result is exactly the sum, fails on a price of the catalogue. The
  literal \<^verbatim>\<open>99.99\<close> denotes the double \<open>7036170730324623 / 2 ^ 46\<close>. With that price and
  quantity 3 the sum is \<open>21108512190973869 / 2 ^ 46\<close>, which is no double;
  \<^verbatim>\<open>getTotalPrice\<close> returns the nearest one, \<open>5277128047743467 / 2 ^ 44\<close>, printed
  \<^verbatim>\<open>299.96999999999997\<close>.
\<close>

theorem getTotalPrice_not_exact:
  "round_double (9999 / 100) = 7036170730324623 / 70368744177664
   \<and> cartItems (run [AddToCart \<lparr>id' = 1, name = ''Wireless Headphones'', price = 7036170730324623 / 70368744177664,
           image' = None\<rparr>,
        UpdateQuantity 1 3])
     = [\<lparr>id' = 1, name = ''Wireless Headphones'', price = 7036170730324623 / 70368744177664,
         image' = None, quantity = 3\<rparr>]
   \<and> (\<Sum>item \<leftarrow> cartItems (run [AddToCart \<lparr>id' = 1, name = ''Wireless Headphones'', price = 7036170730324623 / 70368744177664,
           image' = None\<rparr>,
        UpdateQuantity 1 3]).
        price item * quantity item) = 21108512190973869 / 70368744177664
   \<and> fst (getTotalPrice (run [AddToCart \<lparr>id' = 1, name = ''Wireless Headphones'', price = 7036170730324623 / 70368744177664,
           image' = None\<rparr>,
        UpdateQuantity 1 3])) = 5277128047743467 / 17592186044416
   \<and> fst (getTotalPrice (run [AddToCart \<lparr>id' = 1, name = ''Wireless Headphones'', price = 7036170730324623 / 70368744177664,
           image' = None\<rparr>,
        UpdateQuantity 1 3]))
     \<noteq> (\<Sum>item \<leftarrow> cartItems (run [AddToCart \<lparr>id' = 1, name = ''Wireless Headphones'', price = 7036170730324623 / 70368744177664,
           image' = None\<rparr>,
        UpdateQuantity 1 3]).
          price item * quantity item)"
proof -
  define d :: real where "d = 7036170730324623 / 70368744177664"
  define r :: real where "r = 5277128047743467 / 17592186044416"
  define s where "s = (run [AddToCart \<lparr>id' = 1, name = ''Wireless Headphones'', price = 7036170730324623 / 70368744177664,
           image' = None\<rparr>,
        UpdateQuantity 1 3])"
  have literal: "round_double (9999 / 100) = 7036170730324623 / 70368744177664"
    by code_simp
  have product: "round_double (d * 3) = r"
    unfolding d_def r_def by code_simp
  have total: "round_double r = r"
    unfolding r_def by code_simp
  have items: "cartItems s
     = [\<lparr>id' = 1, name = ''Wireless Headphones'', price = d, image' = None, quantity = 3\<rparr>]"
    by (simp add: s_def d_def run_def init_def cartItems_addToCart
          cartItems_updateQuantity_present)
  have result: "fst (getTotalPrice s) = r"
    unfolding getTotalPrice_def items by (simp add: product total)
  have exact: "(\<Sum>item \<leftarrow> cartItems s. price item * quantity item) = d * 3"
    unfolding items by simp
  have differ: "r \<noteq> d * 3"
    by (simp add: d_def r_def)
  have "round_double (9999 / 100) = d
    \<and> cartItems s
      = [\<lparr>id' = 1, name = ''Wireless Headphones'', price = d, image' = None, quantity = 3\<rparr>]
    \<and> (\<Sum>item \<leftarrow> cartItems s. price item * quantity item) = 21108512190973869 / 70368744177664
    \<and> fst (getTotalPrice s) = r
    \<and> fst (getTotalPrice s) \<noteq> (\<Sum>item \<leftarrow> cartItems s. price item * quantity item)"
    using literal items result differ by (simp add: exact) (simp add: d_def)
  then show ?thesis
    unfolding d_def r_def s_def .
qed

section \<open>Notifications\<close>

text \<open>
  C8. \<^verbatim>\<open>addToCart\<close>, \<^verbatim>\<open>removeFromCart\<close> and \<^verbatim>\<open>clearCart\<close> always, and
  \<^verbatim>\<open>updateQuantity\<close> whenever the quantity is at most 0 or the id is in the cart, add
  exactly two notifications to the trace: the new items on the items feed, then the new count
  on the count feed. So does every call that changes the items or the count.
\<close>

theorem notify_items_then_count:
  "emitted (addToCart p s) =
     emitted s @ [CartItemsNext (cartItems (addToCart p s)),
                  CartCountNext (cartCount (addToCart p s))]
   \<and> emitted (removeFromCart x s) =
     emitted s @ [CartItemsNext (cartItems (removeFromCart x s)),
                  CartCountNext (cartCount (removeFromCart x s))]
   \<and> emitted (clearCart s) =
     emitted s @ [CartItemsNext (cartItems (clearCart s)),
                  CartCountNext (cartCount (clearCart s))]
   \<and> (q \<le> 0 \<or> x \<in> id' ` set (cartItems s) \<longrightarrow>
        emitted (updateQuantity x q s) =
          emitted s @ [CartItemsNext (cartItems (updateQuantity x q s)),
                       CartCountNext (cartCount (updateQuantity x q s))])
   \<and> (cartItems (apply_operation operation s) \<noteq> cartItems s
        \<or> cartCount (apply_operation operation s) \<noteq> cartCount s \<longrightarrow>
        emitted (apply_operation operation s) =
          emitted s @ [CartItemsNext (cartItems (apply_operation operation s)),
                       CartCountNext (cartCount (apply_operation operation s))])"
proof (intro conjI impI)
  show "emitted (addToCart p s) =
     emitted s @ [CartItemsNext (cartItems (addToCart p s)),
                  CartCountNext (cartCount (addToCart p s))]"
    by (rule emitted_addToCart)
  show "emitted (removeFromCart x s) =
     emitted s @ [CartItemsNext (cartItems (removeFromCart x s)),
                  CartCountNext (cartCount (removeFromCart x s))]"
    by (rule emitted_removeFromCart)
  show "emitted (clearCart s) =
     emitted s @ [CartItemsNext (cartItems (clearCart s)),
                  CartCountNext (cartCount (clearCart s))]"
    by (simp add: emitted_clearCart cartItems_clearCart cartCount_clearCart)
next
  assume "q \<le> 0 \<or> x \<in> id' ` set (cartItems s)"
  then consider "q \<le> 0" | "0 < q" "x \<in> id' ` set (cartItems s)"
    by fastforce
  then show "emitted (updateQuantity x q s) =
          emitted s @ [CartItemsNext (cartItems (updateQuantity x q s)),
                       CartCountNext (cartCount (updateQuantity x q s))]"
  proof cases
    case 1
    then show ?thesis
      using emitted_removeFromCart [of x s] by (simp add: updateQuantity_nonpositive)
  next
    case 2
    then show ?thesis by (rule emitted_updateQuantity_present)
  qed
next
  assume "cartItems (apply_operation operation s) \<noteq> cartItems s
        \<or> cartCount (apply_operation operation s) \<noteq> cartCount s"
  then have "apply_operation operation s \<noteq> s" by auto
  with apply_operation_emits [of operation s]
  show "emitted (apply_operation operation s) =
          emitted s @ [CartItemsNext (cartItems (apply_operation operation s)),
                       CartCountNext (cartCount (apply_operation operation s))]"
    by blast
qed

text \<open>
  The hypotheses at concrete calls: a quantity of 0, an id that is in the cart, and a
  call that changes the items.
\<close>

theorem notify_items_then_count_witness:
  "(0::number) \<le> 0
   \<and> emitted (updateQuantity 1 0
        \<lparr>cartItems = [\<lparr>id' = 1, name = ''A'', price = 10, image' = None, quantity = 3\<rparr>],
         cartCount = 3, emitted = []\<rparr>)
      = [CartItemsNext [], CartCountNext 0]
   \<and> 1 \<in> id' ` set [\<lparr>id' = 1, name = ''A'', price = 10, image' = None, quantity = 3\<rparr>]
   \<and> emitted (updateQuantity 1 7
        \<lparr>cartItems = [\<lparr>id' = 1, name = ''A'', price = 10, image' = None, quantity = 3\<rparr>],
         cartCount = 3, emitted = []\<rparr>)
      = [CartItemsNext [\<lparr>id' = 1, name = ''A'', price = 10, image' = None, quantity = 7\<rparr>],
         CartCountNext 7]
   \<and> cartItems (apply_operation (AddToCart \<lparr>id' = 1, name = ''A'', price = 10, image' = None\<rparr>) init)
        \<noteq> cartItems init
   \<and> emitted (apply_operation (AddToCart \<lparr>id' = 1, name = ''A'', price = 10, image' = None\<rparr>) init)
      = [CartItemsNext [\<lparr>id' = 1, name = ''A'', price = 10, image' = None, quantity = 1\<rparr>],
         CartCountNext 1]"
  using
    notify_items_then_count [of _ "\<lparr>cartItems = [\<lparr>id' = 1, name = ''A'', price = 10, image' = None, quantity = 3\<rparr>],
         cartCount = 3, emitted = []\<rparr>" 1 0]
    notify_items_then_count [of _ "\<lparr>cartItems = [\<lparr>id' = 1, name = ''A'', price = 10, image' = None, quantity = 3\<rparr>],
         cartCount = 3, emitted = []\<rparr>" 1 7]
    notify_items_then_count [of _ init _ _ "AddToCart \<lparr>id' = 1, name = ''A'', price = 10, image' = None\<rparr>"]
  by (simp add: cartItems_addToCart cartCount_addToCart init_def updateQuantity_nonpositive
        cartItems_removeFromCart cartCount_removeFromCart
        cartItems_updateQuantity_present cartCount_updateQuantity_present)

section \<open>Order of the items\<close>

text \<open>
  C9. The product parts of the items (id, name, price, image) keep their positions:
  \<^verbatim>\<open>addToCart\<close> of an id in the cart leaves their sequence as it was, and of a new id
  appends the product at the end; \<^verbatim>\<open>removeFromCart\<close> leaves a subsequence of the items;
  \<^verbatim>\<open>updateQuantity\<close> does as \<^verbatim>\<open>removeFromCart\<close> for a quantity of at most 0 and leaves
  the sequence of products as it was otherwise.
\<close>

theorem insertion_order_stable:
  "map Product.truncate (cartItems (addToCart p s)) =
     (if id' p \<in> id' ` set (cartItems s) then map Product.truncate (cartItems s)
      else map Product.truncate (cartItems s) @ [p])
   \<and> subseq (cartItems (removeFromCart x s)) (cartItems s)
   \<and> (if q \<le> 0 then subseq (cartItems (updateQuantity x q s)) (cartItems s)
       else map Product.truncate (cartItems (updateQuantity x q s)) =
              map Product.truncate (cartItems s))"
proof (intro conjI)
  show "map Product.truncate (cartItems (addToCart p s)) =
     (if id' p \<in> id' ` set (cartItems s) then map Product.truncate (cartItems s)
      else map Product.truncate (cartItems s) @ [p])"
  proof (cases "id' p \<in> id' ` set (cartItems s)")
    case True
    then obtain y where "List.find (\<lambda>item. id' item = id' p) (cartItems s) = Some y"
      using find_id_Some by blast
    with True show ?thesis
      by (simp add: cartItems_addToCart map_update_found)
  next
    case False
    then show ?thesis
      by (simp add: cartItems_addToCart find_id_None [THEN iffD2] Product.truncate_def)
  qed
  show "subseq (cartItems (removeFromCart x s)) (cartItems s)"
    by (simp add: cartItems_removeFromCart)
  show "if q \<le> 0 then subseq (cartItems (updateQuantity x q s)) (cartItems s)
       else map Product.truncate (cartItems (updateQuantity x q s)) =
              map Product.truncate (cartItems s)"
  proof (cases "q \<le> 0")
    case True
    then show ?thesis
      by (simp add: updateQuantity_nonpositive cartItems_removeFromCart)
  next
    case False
    show ?thesis
    proof (cases "x \<in> id' ` set (cartItems s)")
      case True
      with False show ?thesis
        by (simp add: cartItems_updateQuantity_present map_update_found)
    next
      case False
      with \<open>\<not> q \<le> 0\<close> show ?thesis
        by (simp add: updateQuantity_absent)
    qed
  qed
qed

end
